theory Spec2Isabelle
  imports Main
begin

section \<open>Data model of the meeting board\<close>

text \<open>
  The embedding follows \<^verbatim>\<open>src/components/MeetingBoard.tsx\<close>. The interfaces
  \<^verbatim>\<open>Note\<close> and \<^verbatim>\<open>Meeting\<close> become records. Field \<^verbatim>\<open>id\<close>
  is written \<open>nid\<close> for a note and \<open>mid\<close> for a meeting (\<open>id\<close> is the
  identity function of HOL), and the meeting's \<^verbatim>\<open>created_by\<close> and
  \<^verbatim>\<open>created_at\<close> carry the prefix \<open>m_\<close>, because record fields share one
  name space. Timestamps are ISO strings in the source; they are read only through
  \<^verbatim>\<open>new Date(s).getTime()\<close>, so the model stores the instant in milliseconds.
  The optional field \<^verbatim>\<open>liked_by\<close> of a note is never written nor read and is
  left out. A JavaScript \<^verbatim>\<open>number\<close> holding a like count is an \<open>int\<close>.
\<close>

datatype note_type = glad | mad | sad | action

datatype meeting_status = active | ended

record Note =
  nid :: string
  content :: string
  type :: note_type
  created_by :: string
  created_at :: int
  updated_at :: int
  like_count :: int
  user_liked :: bool

record Meeting =
  mid :: string
  title :: string
  meeting_code :: string
  m_created_by :: string
  status :: meeting_status
  ended_at :: "int option"
  ended_by :: "string option"
  m_created_at :: int

text \<open>
  The component state that the handlers close over: \<^verbatim>\<open>meeting\<close>,
  \<^verbatim>\<open>user\<close> (only \<^verbatim>\<open>user.id\<close> is used), \<^verbatim>\<open>notes\<close> (written
  \<open>noteList\<close>), \<^verbatim>\<open>likingNotes\<close> and whether \<^verbatim>\<open>channelRef.current\<close>
  is set. A handler reads these values as they were at the render that created it; the
  updater functions passed to \<^verbatim>\<open>setNotes\<close> receive the current list, which the
  model passes separately as \<open>prev\<close>.
\<close>

record board =
  meeting :: "Meeting option"
  user :: "string option"
  noteList :: "Note list"
  likingNotes :: "string set"
  channelRef :: bool

subsection \<open>Calls to the store, broadcasts and the trace of a handler\<close>

text \<open>
  A call of the Supabase client is recorded with the filters the source chains onto it
  (\<^verbatim>\<open>.eq('id', noteId)\<close>, \<^verbatim>\<open>.eq('created_by', user?.id)\<close>). The reply is the
  pair \<^verbatim>\<open>{ data, error }\<close>: either the data or the error's message.
\<close>

datatype note_filter = EqId string | EqCreatedBy "string option"

datatype note_patch = SetContent string | SetType note_type

datatype store_call =
    NotesInsert string string note_type string
  | NotesUpdate note_patch "note_filter list"
  | NotesDelete "note_filter list"
  | LikesUpsert string string
  | LikesDelete string string

datatype 'a reply = Data 'a | Error string

record like_change =
  noteId :: string
  userId :: string
  liked :: bool
  timestamp :: int

text \<open>
  A handler is modelled by the list of its effects in program order: each
  \<^verbatim>\<open>setNotes\<close> (with the list it produces), each \<^verbatim>\<open>setLikingNotes\<close>,
  each \<^verbatim>\<open>alert\<close>, each call issued to the store and each broadcast sent.
  Console logging is not modelled.
\<close>

datatype effect =
    SetNotes "Note list"
  | SetLikingNotes "string set"
  | Alert string
  | Call store_call
  | Send like_change

fun apply_effect :: "board \<Rightarrow> effect \<Rightarrow> board" where
  "apply_effect b (SetNotes ns) = b\<lparr>noteList := ns\<rparr>"
| "apply_effect b (SetLikingNotes s) = b\<lparr>likingNotes := s\<rparr>"
| "apply_effect b (Alert msg) = b"
| "apply_effect b (Call c) = b"
| "apply_effect b (Send p) = b"

definition apply_effects :: "board \<Rightarrow> effect list \<Rightarrow> board" where
  "apply_effects b es = foldl apply_effect b es"

fun is_alert :: "effect \<Rightarrow> bool" where
  "is_alert (Alert msg) = True"
| "is_alert e = False"

text \<open>\<^verbatim>\<open>String.prototype.includes\<close>: the argument occurs as a contiguous part.\<close>

fun str_includes :: "string \<Rightarrow> string \<Rightarrow> bool" where
  "str_includes [] sub = (sub = [])"
| "str_includes (c # cs) sub = (take (length sub) (c # cs) = sub \<or> str_includes cs sub)"

subsection \<open>Reading the likes of a note\<close>

text \<open>
  \<^verbatim>\<open>fetchNoteWithLikes\<close> spreads the note it is given and overwrites
  \<^verbatim>\<open>like_count\<close> with the number of rows of \<^verbatim>\<open>note_likes\<close> for the note
  and \<^verbatim>\<open>user_liked\<close> with the presence of the current user's row. The table is
  a list of pairs \<open>(note_id, user_id)\<close>; \<open>None\<close> stands for a store that cannot
  be read (the \<^verbatim>\<open>catch\<close> branch, and both queries answering with an error).
\<close>

type_synonym note_likes = "(string \<times> string) list"

definition fetchNoteWithLikes :: "string option \<Rightarrow> note_likes option \<Rightarrow> Note \<Rightarrow> Note" where
  "fetchNoteWithLikes usr likes note =
     (case usr of
        None \<Rightarrow> note\<lparr>like_count := 0, user_liked := False\<rparr>
      | Some u \<Rightarrow>
          (case likes of
             None \<Rightarrow> note\<lparr>like_count := 0, user_liked := False\<rparr>
           | Some rows \<Rightarrow>
               note\<lparr>like_count := int (length (filter (\<lambda>r. fst r = nid note) rows)),
                    user_liked := ((nid note, u) \<in> set rows)\<rparr>))"

section \<open>The subscription handlers of \<^verbatim>\<open>subscribeToNotes\<close>\<close>

subsection \<open>INSERT notifications on the notes table\<close>

text \<open>
  The handler returns at once for a note of the current user. Otherwise it reads the
  likes of the new row and calls \<^verbatim>\<open>setNotes\<close> with an updater that keeps the
  list when some note has the new id and appends the note otherwise. \<open>user_id\<close> is
  \<^verbatim>\<open>user.id\<close> of the closure (the subscription is only set up with a user),
  \<open>newNote\<close> is \<^verbatim>\<open>payload.new\<close> and \<open>likes\<close> the table read by
  \<^verbatim>\<open>fetchNoteWithLikes\<close>.
\<close>

definition on_note_insert :: "string \<Rightarrow> note_likes option \<Rightarrow> Note \<Rightarrow> Note list \<Rightarrow> Note list" where
  "on_note_insert user_id likes newNote prev =
     (if created_by newNote = user_id then prev
      else
        (let noteWithLikes = fetchNoteWithLikes (Some user_id) likes newNote
         in if list_ex (\<lambda>note. nid note = nid newNote) prev then prev
            else prev @ [noteWithLikes]))"

subsection \<open>The \<^verbatim>\<open>like_change\<close> broadcast\<close>

text \<open>
  The handler skips the user's own broadcast, looks the note up in the \<^verbatim>\<open>notes\<close>
  of its closure (\<open>closure_notes\<close>) and, when it is found, maps the current list:
  the note with the id gets \<^verbatim>\<open>Math.max(0, note.like_count + likeCountDelta)\<close>.
  The refresh that follows 300 ms later replaces the note by the one read from the store.
\<close>

definition like_delta :: "bool \<Rightarrow> Note \<Rightarrow> Note" where
  "like_delta lk note =
     (let likeCountDelta = (if lk then 1 else - 1)
      in note\<lparr>like_count := max 0 (like_count note + likeCountDelta)\<rparr>)"

definition on_like_change :: "string \<Rightarrow> Note list \<Rightarrow> like_change \<Rightarrow> Note list \<Rightarrow> Note list" where
  "on_like_change user_id closure_notes p prev =
     (if userId p = user_id then prev
      else
        (case find (\<lambda>note. nid note = noteId p) closure_notes of
           None \<Rightarrow> prev
         | Some noteToUpdate \<Rightarrow>
             map (\<lambda>note. if nid note = noteId p then like_delta (liked p) note else note) prev))"

definition on_like_change_refresh :: "string \<Rightarrow> note_likes option \<Rightarrow> Note \<Rightarrow> Note list \<Rightarrow> Note list" where
  "on_like_change_refresh user_id likes noteToUpdate prev =
     (let refreshedNote = fetchNoteWithLikes (Some user_id) likes noteToUpdate
      in map (\<lambda>note. if nid note = nid noteToUpdate then refreshedNote else note) prev)"

subsection \<open>The \<^verbatim>\<open>typing\<close> broadcast and its timers\<close>

text \<open>
  \<^verbatim>\<open>typingIndicators\<close> maps a note id to the typing user;
  \<^verbatim>\<open>typingTimeoutRef.current\<close> maps a note id to the pending timer, which the
  model represents by the time at which it is due: \<^verbatim>\<open>setTimeout(f, 3000)\<close> at
  time \<open>now\<close> is due at \<open>now + 3000\<close> (milliseconds). \<^verbatim>\<open>clearTimeout\<close>
  followed by the assignment overwrites the entry.
\<close>

record typing_indicator =
  ti_userId :: string
  ti_userName :: string
  ti_timestamp :: nat

record typing_payload =
  tp_noteId :: string
  tp_userId :: string
  tp_userName :: string
  isTyping :: bool

record typing_state =
  typingIndicators :: "string \<rightharpoonup> typing_indicator"
  typingTimeoutRef :: "string \<rightharpoonup> nat"

definition on_typing :: "string \<Rightarrow> nat \<Rightarrow> typing_payload \<Rightarrow> typing_state \<Rightarrow> typing_state" where
  "on_typing user_id now p st =
     (if tp_userId p = user_id then st
      else if isTyping p then
        st\<lparr>typingIndicators := (typingIndicators st)(tp_noteId p \<mapsto>
               \<lparr>ti_userId = tp_userId p, ti_userName = tp_userName p, ti_timestamp = now\<rparr>),
           typingTimeoutRef := (typingTimeoutRef st)(tp_noteId p \<mapsto> now + 3000)\<rparr>
      else
        st\<lparr>typingIndicators := (typingIndicators st)(tp_noteId p := None),
           typingTimeoutRef := (typingTimeoutRef st)(tp_noteId p := None)\<rparr>)"

text \<open>
  The callback of the timer of note \<open>k\<close> deletes the indicator and the timer entry
  of \<open>k\<close>. \<open>run_timers now\<close> is the event loop at time \<open>now\<close>: every timer that
  is due has its callback run. The callbacks touch different keys, so their order does
  not matter and they are applied at once.
\<close>

definition timer_due :: "nat \<Rightarrow> typing_state \<Rightarrow> string \<Rightarrow> bool" where
  "timer_due now st k = (case typingTimeoutRef st k of None \<Rightarrow> False | Some due \<Rightarrow> due \<le> now)"

definition run_timers :: "nat \<Rightarrow> typing_state \<Rightarrow> typing_state" where
  "run_timers now st =
     st\<lparr>typingIndicators := (\<lambda>k. if timer_due now st k then None else typingIndicators st k),
        typingTimeoutRef := (\<lambda>k. if timer_due now st k then None else typingTimeoutRef st k)\<rparr>"

text \<open>
  A run of the receiver: typing broadcasts arriving at given times; before each one
  is handled, the timers due at its arrival have fired.
\<close>

fun receive_typing :: "string \<Rightarrow> (nat \<times> typing_payload) list \<Rightarrow> typing_state \<Rightarrow> typing_state" where
  "receive_typing user_id [] st = st"
| "receive_typing user_id ((t, p) # evs) st =
     receive_typing user_id evs (on_typing user_id t p (run_timers t st))"

text \<open>
  The timer of note \<open>k\<close> is pending with due time \<open>due\<close>, or it has fired and
  the indicator of \<open>k\<close> is gone.
\<close>

definition armed_or_gone :: "string \<Rightarrow> nat \<Rightarrow> typing_state \<Rightarrow> bool" where
  "armed_or_gone k due st =
     (typingTimeoutRef st k = Some due \<or> (typingIndicators st k = None \<and> typingTimeoutRef st k = None))"

section \<open>The mutations of the board\<close>

text \<open>
  Each \<^verbatim>\<open>async\<close> function is cut at its \<^verbatim>\<open>await\<close>: the part that runs up
  to the call of the store (\<open>_start\<close>) and the part that runs when the reply has
  arrived (\<open>_settle\<close>). Both parts belong to one invocation and read the same closure
  \<open>b\<close>; \<open>prev\<close> is the list that the updater of \<^verbatim>\<open>setNotes\<close> receives.
  \<open>now\<close> is the clock read by \<^verbatim>\<open>new Date()\<close>.
\<close>

definition ended_or :: "string \<Rightarrow> string \<Rightarrow> string \<Rightarrow> effect" where
  "ended_or msg ended_text other_text =
     (if str_includes msg ''active'' then Alert ended_text else Alert other_text)"

subsection \<open>\<^verbatim>\<open>addNote\<close>\<close>

definition addNote_start :: "board \<Rightarrow> note_type \<Rightarrow> string \<Rightarrow> effect list" where
  "addNote_start b ty text =
     (case meeting b of
        None \<Rightarrow> []
      | Some m \<Rightarrow>
          (case user b of
             None \<Rightarrow> []
           | Some u \<Rightarrow>
               if status m = ended
               then [Alert ''This meeting has ended. You can no longer add notes.'']
               else [Call (NotesInsert (mid m) text ty u)]))"

definition addNote_settle :: "Note reply \<Rightarrow> Note list \<Rightarrow> effect list" where
  "addNote_settle r prev =
     (case r of
        Error msg \<Rightarrow>
          [ended_or msg ''This meeting has ended. You can no longer add notes.''
             (''Failed to add note: '' @ msg)]
      | Data d \<Rightarrow>
          (let newNote = d\<lparr>like_count := 0, user_liked := False\<rparr>
           in [SetNotes (prev @ [newNote])]))"

subsection \<open>\<^verbatim>\<open>updateNote\<close> and \<^verbatim>\<open>updateNoteType\<close>\<close>

definition replace_note :: "string \<Rightarrow> Note \<Rightarrow> Note list \<Rightarrow> Note list" where
  "replace_note note_id original prev = map (\<lambda>note. if nid note = note_id then original else note) prev"

definition rollback_update :: "board \<Rightarrow> string \<Rightarrow> Note list \<Rightarrow> effect list" where
  "rollback_update b note_id prev =
     (case find (\<lambda>note. nid note = note_id) (noteList b) of
        None \<Rightarrow> []
      | Some originalNote \<Rightarrow> [SetNotes (replace_note note_id originalNote prev)])"

definition updateNote_start :: "board \<Rightarrow> string \<Rightarrow> string \<Rightarrow> int \<Rightarrow> Note list \<Rightarrow> effect list" where
  "updateNote_start b note_id text now prev =
     (if meeting b = None \<or> map_option status (meeting b) = Some ended
      then [Alert ''This meeting has ended. You can no longer edit notes.'']
      else
        [SetNotes (map (\<lambda>note. if nid note = note_id
                                 then note\<lparr>content := text, updated_at := now\<rparr> else note) prev),
         Call (NotesUpdate (SetContent text) [EqId note_id, EqCreatedBy (user b)])])"

definition updateNote_settle :: "board \<Rightarrow> string \<Rightarrow> Note reply \<Rightarrow> Note list \<Rightarrow> effect list" where
  "updateNote_settle b note_id r prev =
     (case r of
        Error msg \<Rightarrow>
          rollback_update b note_id prev @
          [ended_or msg ''This meeting has ended. You can no longer edit notes.''
             (''Failed to update note: '' @ msg)]
      | Data d \<Rightarrow> [])"

definition updateNoteType_start :: "board \<Rightarrow> string \<Rightarrow> note_type \<Rightarrow> int \<Rightarrow> Note list \<Rightarrow> effect list" where
  "updateNoteType_start b note_id newType now prev =
     (if meeting b = None \<or> map_option status (meeting b) = Some ended
      then [Alert ''This meeting has ended. You can no longer move notes.'']
      else
        [SetNotes (map (\<lambda>note. if nid note = note_id
                                 then note\<lparr>type := newType, updated_at := now\<rparr> else note) prev),
         Call (NotesUpdate (SetType newType) [EqId note_id])])"

definition updateNoteType_settle :: "board \<Rightarrow> string \<Rightarrow> Note reply \<Rightarrow> Note list \<Rightarrow> effect list" where
  "updateNoteType_settle b note_id r prev =
     (case r of
        Error msg \<Rightarrow>
          rollback_update b note_id prev @
          [ended_or msg ''This meeting has ended. You can no longer move notes.''
             (''Failed to move note: '' @ msg)]
      | Data d \<Rightarrow> [])"

subsection \<open>\<^verbatim>\<open>deleteNote\<close>\<close>

definition deleteNote_start :: "board \<Rightarrow> string \<Rightarrow> Note list \<Rightarrow> effect list" where
  "deleteNote_start b note_id prev =
     (if meeting b = None \<or> map_option status (meeting b) = Some ended
      then [Alert ''This meeting has ended. You can no longer delete notes.'']
      else
        [SetNotes (filter (\<lambda>note. nid note \<noteq> note_id) prev),
         Call (NotesDelete [EqId note_id, EqCreatedBy (user b)])])"

definition deleteNote_settle :: "board \<Rightarrow> string \<Rightarrow> unit reply \<Rightarrow> Note list \<Rightarrow> effect list" where
  "deleteNote_settle b note_id r prev =
     (case r of
        Error msg \<Rightarrow>
          (case find (\<lambda>note. nid note = note_id) (noteList b) of
             None \<Rightarrow> []
           | Some originalNote \<Rightarrow> [SetNotes (prev @ [originalNote])]) @
          [ended_or msg ''This meeting has ended. You can no longer delete notes.''
             (''Failed to delete note: '' @ msg)]
      | Data d \<Rightarrow> [])"

subsection \<open>\<^verbatim>\<open>toggleNoteLike\<close>\<close>

text \<open>
  \<open>flip_like\<close> is the update of the branch taken while the note is in
  \<^verbatim>\<open>likingNotes\<close>; \<open>set_like\<close> the optimistic update of the other branch,
  which uses \<^verbatim>\<open>initialLikedState\<close> of the closure; \<open>revert_like\<close> the
  rollback written three times in the source.
\<close>

definition flip_like :: "Note \<Rightarrow> Note" where
  "flip_like n = n\<lparr>user_liked := \<not> user_liked n,
                    like_count := (if user_liked n then like_count n - 1 else like_count n + 1)\<rparr>"

definition set_like :: "bool \<Rightarrow> Note \<Rightarrow> Note" where
  "set_like initialLikedState n =
     n\<lparr>user_liked := \<not> initialLikedState,
       like_count := (if initialLikedState then like_count n - 1 else like_count n + 1)\<rparr>"

definition revert_like :: "bool \<Rightarrow> Note \<Rightarrow> Note" where
  "revert_like initialLikedState n =
     n\<lparr>user_liked := initialLikedState,
       like_count := (if initialLikedState then like_count n + 1 else like_count n - 1)\<rparr>"

definition on_note :: "string \<Rightarrow> (Note \<Rightarrow> Note) \<Rightarrow> Note list \<Rightarrow> Note list" where
  "on_note note_id f prev = map (\<lambda>n. if nid n = note_id then f n else n) prev"

definition toggleNoteLike_start ::
  "board \<Rightarrow> string \<Rightarrow> int \<Rightarrow> Note list \<Rightarrow> string set \<Rightarrow> effect list" where
  "toggleNoteLike_start b note_id now prev prevLiking =
     (case meeting b of
        None \<Rightarrow> []
      | Some m \<Rightarrow>
          if status m = ended
          then [Alert ''This meeting has ended. You can no longer like notes.'']
          else
            (case user b of
               None \<Rightarrow> []
             | Some u \<Rightarrow>
                 (case find (\<lambda>n. nid n = note_id) (noteList b) of
                    None \<Rightarrow> []
                  | Some note \<Rightarrow>
                      if note_id \<in> likingNotes b
                      then [SetNotes (on_note note_id flip_like prev)]
                      else
                        (let initialLikedState = user_liked note;
                             newLikedState = (\<not> initialLikedState)
                         in [SetLikingNotes (insert note_id prevLiking),
                             SetNotes (on_note note_id (set_like initialLikedState) prev)] @
                            (if channelRef b
                             then [Send \<lparr>noteId = note_id, userId = u,
                                          liked = newLikedState, timestamp = now\<rparr>]
                             else []) @
                            [Call (if newLikedState then LikesUpsert note_id u
                                   else LikesDelete note_id u)]))))"

text \<open>
  The reply of the upsert or of the delete. The branches are those of the source: for a
  like, an error whose message contains \<^verbatim>\<open>duplicate key\<close> sets
  \<^verbatim>\<open>user_liked: true\<close> and shows nothing; any other error reverts and alerts.
\<close>

definition toggleNoteLike_settle :: "board \<Rightarrow> string \<Rightarrow> unit reply \<Rightarrow> Note list \<Rightarrow> effect list" where
  "toggleNoteLike_settle b note_id r prev =
     (case find (\<lambda>n. nid n = note_id) (noteList b) of
        None \<Rightarrow> []
      | Some note \<Rightarrow>
          (let initialLikedState = user_liked note;
               newLikedState = (\<not> initialLikedState)
           in if newLikedState then
                (case r of
                   Data d \<Rightarrow> []
                 | Error msg \<Rightarrow>
                     if str_includes msg ''duplicate key''
                     then [SetNotes (on_note note_id
                                      (\<lambda>n. n\<lparr>user_liked := True, like_count := max 0 (like_count n)\<rparr>) prev)]
                     else [SetNotes (on_note note_id (revert_like initialLikedState) prev),
                           ended_or msg ''This meeting has ended. You can no longer like notes.''
                             ''Failed to like note. Please try again.''])
              else
                (case r of
                   Data d \<Rightarrow> []
                 | Error msg \<Rightarrow>
                     [SetNotes (on_note note_id (revert_like initialLikedState) prev),
                      ended_or msg ''This meeting has ended. You can no longer like notes.''
                        ''Failed to unlike note. Please try again.''])))"

text \<open>The \<^verbatim>\<open>catch\<close> branch, taken when the call itself throws.\<close>

definition toggleNoteLike_catch :: "board \<Rightarrow> string \<Rightarrow> Note list \<Rightarrow> effect list" where
  "toggleNoteLike_catch b note_id prev =
     (case find (\<lambda>n. nid n = note_id) (noteList b) of
        None \<Rightarrow> []
      | Some note \<Rightarrow>
          [SetNotes (on_note note_id (revert_like (user_liked note)) prev),
           Alert ''Failed to toggle like. Please try again.''])"

text \<open>
  The two timers armed after the reply: after 100 ms the note is replaced by
  \<^verbatim>\<open>fetchNoteWithLikes(note)\<close>, where \<^verbatim>\<open>note\<close> is the note of the closure;
  after 200 ms the id leaves \<^verbatim>\<open>likingNotes\<close>.
\<close>

definition toggleNoteLike_refresh :: "board \<Rightarrow> string \<Rightarrow> note_likes option \<Rightarrow> Note list \<Rightarrow> effect list" where
  "toggleNoteLike_refresh b note_id likes prev =
     (case find (\<lambda>n. nid n = note_id) (noteList b) of
        None \<Rightarrow> []
      | Some note \<Rightarrow>
          (let refreshedNote = fetchNoteWithLikes (user b) likes note
           in [SetNotes (on_note note_id (\<lambda>n. refreshedNote) prev)]))"

definition toggleNoteLike_unlock :: "string \<Rightarrow> string set \<Rightarrow> effect list" where
  "toggleNoteLike_unlock note_id prevLiking = [SetLikingNotes (prevLiking - {note_id})]"

section \<open>The store\<close>

text \<open>
  The store is the Postgres database behind the Supabase client. Its tables are lists
  of rows; an update changes every row that passes the filters of the call and the
  row level security policy of the table, and leaves the others as they are. The
  policies are those of the migrations under \<^verbatim>\<open>supabase/migrations\<close>; \<open>uid\<close>
  is \<^verbatim>\<open>auth.uid()\<close>, the user of the session that issues the call.
\<close>

subsection \<open>The table \<^verbatim>\<open>note_likes\<close>\<close>

text \<open>
  \<^verbatim>\<open>UNIQUE(note_id, user_id)\<close>, row level security enabled. The policies of the
  migrations on this table are for SELECT, for INSERT
  (\<^verbatim>\<open>auth.uid() = user_id\<close> and the note's meeting active) and for DELETE (the
  same condition); no file declares a policy for UPDATE.

  The client likes with \<^verbatim>\<open>upsert(..., { onConflict: 'note_id,user_id',
  ignoreDuplicates: false })\<close>, that is \<^verbatim>\<open>INSERT ... ON CONFLICT DO UPDATE\<close>.
  The proposed row is checked against the INSERT policy first. When the tuple is
  absent the row is inserted. When the tuple is present the statement takes the update
  path, which no policy admits, and the store answers with a row level security error.
  A delete removes the rows that pass the DELETE policy and never fails, also when
  nothing is removed. \<open>uid\<close> is the user of the session, \<open>act\<close> tells whether
  the meeting of the note is active in the store. Only the two calls on this table are
  interpreted. The messages are those of Postgres, without the quotes around the table
  name.
\<close>

type_synonym 'a answered = "'a reply \<times> note_likes"

definition rls_check_message :: string where
  "rls_check_message = ''new row violates row-level security policy for table note_likes''"

definition rls_using_message :: string where
  "rls_using_message =
     ''new row violates row-level security policy (USING expression) for table note_likes''"

fun likes_store :: "string \<Rightarrow> bool \<Rightarrow> store_call \<Rightarrow> note_likes \<Rightarrow> unit answered" where
  "likes_store uid act (LikesUpsert n u) rows =
     (if \<not> (uid = u \<and> act) then (Error rls_check_message, rows)
      else if (n, u) \<in> set rows then (Error rls_using_message, rows)
      else (Data (), rows @ [(n, u)]))"
| "likes_store uid act (LikesDelete n u) rows =
     (Data (), if uid = u \<and> act then filter (\<lambda>r. r \<noteq> (n, u)) rows else rows)"

fun issued_calls :: "effect list \<Rightarrow> store_call list" where
  "issued_calls [] = []"
| "issued_calls (Call c # es) = c # issued_calls es"
| "issued_calls (e # es) = issued_calls es"

fun shown_alerts :: "effect list \<Rightarrow> string list" where
  "shown_alerts [] = []"
| "shown_alerts (Alert msg # es) = msg # shown_alerts es"
| "shown_alerts (e # es) = shown_alerts es"

subsection \<open>One client liking notes against the store\<close>

text \<open>
  The client and the store together. \<open>in_flight\<close> holds the calls that have been
  issued and not yet answered, each with the closure of the invocation of
  \<^verbatim>\<open>toggleNoteLike\<close> that awaits it; \<open>refresh_timers\<close> and
  \<open>unlock_timers\<close> hold the two timers armed by an invocation after its reply;
  \<open>alerts\<close> is what \<^verbatim>\<open>alert\<close> has shown so far.
\<close>

record world =
  client :: board
  session_uid :: string
  likes_table :: note_likes
  meeting_active :: bool
  in_flight :: "(board \<times> string \<times> store_call) list"
  refresh_timers :: "(board \<times> string) list"
  unlock_timers :: "string list"
  alerts :: "string list"

text \<open>
  The events of a run. \<open>Click\<close> runs \<^verbatim>\<open>toggleNoteLike\<close> up to its
  \<^verbatim>\<open>await\<close>; the component has rendered since the last event, so the closure is
  the current state, and every call the invocation issues goes in flight. \<open>Reply\<close>
  lets the oldest call in flight reach the store and resumes its invocation with the
  store's answer. \<open>Refresh\<close> and \<open>Unlock\<close> fire the oldest timer of their
  kind; the refresh reads the table as it is then.
\<close>

datatype event = Click string int | Reply | Refresh | Unlock

fun step :: "world \<Rightarrow> event \<Rightarrow> world" where
  "step w (Click note_id now) =
     (let b = client w;
          es = toggleNoteLike_start b note_id now (noteList b) (likingNotes b)
      in w\<lparr>client := apply_effects b es,
           in_flight := in_flight w @ map (\<lambda>c. (b, note_id, c)) (issued_calls es),
           alerts := alerts w @ shown_alerts es\<rparr>)"
| "step w Reply =
     (case in_flight w of
        [] \<Rightarrow> w
      | (b0, note_id, c) # rest \<Rightarrow>
          (let answer = likes_store (session_uid w) (meeting_active w) c (likes_table w);
               es = toggleNoteLike_settle b0 note_id (fst answer) (noteList (client w))
           in w\<lparr>client := apply_effects (client w) es,
                likes_table := snd answer,
                in_flight := rest,
                refresh_timers := refresh_timers w @ [(b0, note_id)],
                unlock_timers := unlock_timers w @ [note_id],
                alerts := alerts w @ shown_alerts es\<rparr>))"
| "step w Refresh =
     (case refresh_timers w of
        [] \<Rightarrow> w
      | (b0, note_id) # rest \<Rightarrow>
          w\<lparr>client := apply_effects (client w)
                 (toggleNoteLike_refresh b0 note_id (Some (likes_table w)) (noteList (client w))),
             refresh_timers := rest\<rparr>)"
| "step w Unlock =
     (case unlock_timers w of
        [] \<Rightarrow> w
      | note_id # rest \<Rightarrow>
          w\<lparr>client := apply_effects (client w)
                 (toggleNoteLike_unlock note_id (likingNotes (client w))),
             unlock_timers := rest\<rparr>)"

definition run :: "event list \<Rightarrow> world \<Rightarrow> world" where
  "run evs w = foldl step w evs"

text \<open>Nothing is pending: no call in flight, no timer armed.\<close>

definition settled :: "world \<Rightarrow> bool" where
  "settled w = (in_flight w = [] \<and> refresh_timers w = [] \<and> unlock_timers w = [])"

fun call_of :: "board \<times> string \<times> store_call \<Rightarrow> store_call" where
  "call_of (b, note_id, c) = c"

definition calls_in_flight :: "world \<Rightarrow> store_call list" where
  "calls_in_flight w = map call_of (in_flight w)"

definition liked_in :: "string \<Rightarrow> board \<Rightarrow> bool option" where
  "liked_in note_id b = map_option user_liked (find (\<lambda>n. nid n = note_id) (noteList b))"

subsection \<open>The table \<^verbatim>\<open>meetings\<close> and the expiry check\<close>

datatype meeting_filter = MEqId string | MEqCreatedBy string | MEqStatus meeting_status

record meetings_update =
  set_status :: meeting_status
  set_ended_at :: "int option"
  set_ended_by :: "string option"
  where_filters :: "meeting_filter list"

text \<open>
  \<^verbatim>\<open>checkMeetingExpiration\<close> up to its \<^verbatim>\<open>await\<close>: the update it issues, if
  any. \<open>now\<close> is the clock compared with the deadline, \<open>now'\<close> the clock read for
  \<^verbatim>\<open>ended_at\<close>.
\<close>

definition checkMeetingExpiration :: "Meeting option \<Rightarrow> int \<Rightarrow> int \<Rightarrow> meetings_update option" where
  "checkMeetingExpiration mt now now' =
     (case mt of
        None \<Rightarrow> None
      | Some m \<Rightarrow>
          if status m = ended then None
          else
            (let twoHoursFromCreation = m_created_at m + 2 * 60 * 60 * 1000
             in if now \<ge> twoHoursFromCreation
                then Some \<lparr>set_status = ended, set_ended_at = Some now', set_ended_by = None,
                           where_filters = [MEqId (mid m)]\<rparr>
                else None))"

text \<open>
  \<^verbatim>\<open>checkExpiredMeetings\<close> of the dashboard: the updates it issues for the rows
  its query returned (the user's active meetings created more than two hours ago).
  The loop reads the clock once for each row: \<open>clock m\<close> is the reading for row
  \<open>m\<close>.
\<close>

definition checkExpiredMeetings ::
  "string \<Rightarrow> int \<Rightarrow> (Meeting \<Rightarrow> int) \<Rightarrow> Meeting list \<Rightarrow> meetings_update list" where
  "checkExpiredMeetings user_id now clock rows =
     (let twoHoursAgo = now - 2 * 60 * 60 * 1000;
          expiredMeetings = filter (\<lambda>m. m_created_by m = user_id \<and> status m = active
                                        \<and> m_created_at m < twoHoursAgo) rows
      in map (\<lambda>m. \<lparr>set_status = ended, set_ended_at = Some (clock m), set_ended_by = None,
                     where_filters = [MEqId (mid m)]\<rparr>) expiredMeetings)"

fun meeting_matches :: "Meeting \<Rightarrow> meeting_filter \<Rightarrow> bool" where
  "meeting_matches row (MEqId i) = (mid row = i)"
| "meeting_matches row (MEqCreatedBy u) = (m_created_by row = u)"
| "meeting_matches row (MEqStatus s) = (status row = s)"

text \<open>Policy \<^verbatim>\<open>"Users can update their own meetings"\<close>: \<^verbatim>\<open>USING (auth.uid() = created_by)\<close>.\<close>

definition meetings_update_policy :: "string \<Rightarrow> Meeting \<Rightarrow> bool" where
  "meetings_update_policy uid row = (uid = m_created_by row)"

definition update_hits :: "string \<Rightarrow> meetings_update \<Rightarrow> Meeting \<Rightarrow> bool" where
  "update_hits uid upd row =
     (list_all (meeting_matches row) (where_filters upd) \<and> meetings_update_policy uid row)"

definition store_meetings_update :: "string \<Rightarrow> meetings_update \<Rightarrow> Meeting list \<Rightarrow> Meeting list" where
  "store_meetings_update uid upd rows =
     map (\<lambda>row. if update_hits uid upd row
                 then row\<lparr>status := set_status upd, ended_at := set_ended_at upd,
                          ended_by := set_ended_by upd\<rparr>
                 else row) rows"

definition rows_affected :: "string \<Rightarrow> meetings_update \<Rightarrow> Meeting list \<Rightarrow> nat" where
  "rows_affected uid upd rows = length (filter (update_hits uid upd) rows)"

text \<open>
  A race of expiry checks: each caller holds a copy of the meeting and reads its
  clock twice (for the comparison and for \<^verbatim>\<open>ended_at\<close>); the updates reach
  the store one after the other.
\<close>

fun expiry_race :: "string \<Rightarrow> (Meeting \<times> int \<times> int) list \<Rightarrow> Meeting list \<Rightarrow> Meeting list" where
  "expiry_race uid [] rows = rows"
| "expiry_race uid ((local, now, now') # callers) rows =
     expiry_race uid callers
       (case checkMeetingExpiration (Some local) now now' of
          None \<Rightarrow> rows
        | Some upd \<Rightarrow> store_meetings_update uid upd rows)"

text \<open>The update that an expiry check issues for meeting \<open>i\<close> at clock \<open>t\<close>.\<close>

definition expiry_update :: "string \<Rightarrow> int \<Rightarrow> meetings_update" where
  "expiry_update i t = \<lparr>set_status = ended, set_ended_at = Some t, set_ended_by = None,
                        where_filters = [MEqId i]\<rparr>"

text \<open>A caller of the race whose copy of meeting \<open>i\<close> is active and past its two hours.\<close>

definition stale_caller :: "string \<Rightarrow> Meeting \<times> int \<times> int \<Rightarrow> bool" where
  "stale_caller i c =
     (mid (fst c) = i \<and> status (fst c) = active
      \<and> m_created_at (fst c) + 2 * 60 * 60 * 1000 \<le> fst (snd c))"

subsection \<open>The table \<^verbatim>\<open>notes\<close> and its update policies\<close>

text \<open>
  Migration \<^verbatim>\<open>20250109230000_allow_collaborative_note_moving.sql\<close> replaces the
  policy \<^verbatim>\<open>"Users can update their own notes"\<close> by two policies for UPDATE:
  \<^verbatim>\<open>"Note creators can update content"\<close> (the creator, in an active meeting) and
  \<^verbatim>\<open>"Anyone can move notes between sections"\<close> (any authenticated user, in an
  active meeting). Both are permissive policies, and a row may be updated when one of
  them admits it.
\<close>

record note_row =
  r_id :: string
  r_meeting_id :: string
  r_content :: string
  r_type :: note_type
  r_created_by :: string

fun note_matches :: "note_row \<Rightarrow> note_filter \<Rightarrow> bool" where
  "note_matches row (EqId i) = (r_id row = i)"
| "note_matches row (EqCreatedBy v) = (v = Some (r_created_by row))"

definition meeting_is_active :: "Meeting list \<Rightarrow> string \<Rightarrow> bool" where
  "meeting_is_active meetings m_id = list_ex (\<lambda>m. mid m = m_id \<and> status m = active) meetings"

definition policy_creators_update :: "string \<Rightarrow> Meeting list \<Rightarrow> note_row \<Rightarrow> bool" where
  "policy_creators_update uid meetings row =
     (uid = r_created_by row \<and> meeting_is_active meetings (r_meeting_id row))"

definition policy_anyone_moves :: "string \<Rightarrow> Meeting list \<Rightarrow> note_row \<Rightarrow> bool" where
  "policy_anyone_moves uid meetings row = meeting_is_active meetings (r_meeting_id row)"

fun apply_patch :: "note_patch \<Rightarrow> note_row \<Rightarrow> note_row" where
  "apply_patch (SetContent text) row = row\<lparr>r_content := text\<rparr>"
| "apply_patch (SetType ty) row = row\<lparr>r_type := ty\<rparr>"

definition note_update_hits :: "string \<Rightarrow> Meeting list \<Rightarrow> note_filter list \<Rightarrow> note_row \<Rightarrow> bool" where
  "note_update_hits uid meetings filters row =
     (list_all (note_matches row) filters \<and>
      (policy_creators_update uid meetings row \<or> policy_anyone_moves uid meetings row))"

text \<open>
  The table after a call of \<^verbatim>\<open>.update(patch)\<close> with its filters. Only updates
  are interpreted.
\<close>

fun store_notes_apply :: "string \<Rightarrow> Meeting list \<Rightarrow> store_call \<Rightarrow> note_row list \<Rightarrow> note_row list" where
  "store_notes_apply uid meetings (NotesUpdate patch filters) rows =
     map (\<lambda>row. if note_update_hits uid meetings filters row then apply_patch patch row else row) rows"

text \<open>Concrete boards, notes and tables used to evaluate the definitions.\<close>

definition meeting0 :: Meeting where
  "meeting0 = \<lparr>mid = ''m1'', title = ''Retro'', meeting_code = ''ABC123'', m_created_by = ''alice'',
               status = active, ended_at = None, ended_by = None, m_created_at = 0\<rparr>"

definition note0 :: Note where
  "note0 = \<lparr>nid = ''n1'', content = ''Great sprint!'', type = glad, created_by = ''alice'',
            created_at = 10, updated_at = 10, like_count = 0, user_liked = False\<rparr>"

definition note1 :: Note where
  "note1 = \<lparr>nid = ''n2'', content = ''Slow builds'', type = mad, created_by = ''bob'',
            created_at = 20, updated_at = 20, like_count = 2, user_liked = True\<rparr>"

definition board0 :: board where
  "board0 = \<lparr>meeting = Some meeting0, user = Some ''bob'', noteList = [note0, note1],
             likingNotes = {}, channelRef = True\<rparr>"

definition board_ended :: board where
  "board_ended = board0\<lparr>meeting := Some (meeting0\<lparr>status := ended, ended_at := Some 7200000\<rparr>)\<rparr>"

definition row0 :: note_row where
  "row0 = \<lparr>r_id = ''n1'', r_meeting_id = ''m1'', r_content = ''Great sprint!'', r_type = glad,
           r_created_by = ''alice''\<rparr>"

definition racers :: "(Meeting \<times> int \<times> int) list" where
  "racers = [(meeting0, 7200001, 7200002), (meeting0, 7200004, 7200005)]"

definition world0 :: world where
  "world0 = \<lparr>client = board0, session_uid = ''bob'', likes_table = [], meeting_active = True,
             in_flight = [], refresh_timers = [], unlock_timers = [], alerts = []\<rparr>"

text \<open>
  Two clicks on the like button of note \<open>n1\<close>, the second while the call of the
  first is in flight; then the reply and the two timers.
\<close>

definition double_click :: "event list" where
  "double_click = [Click ''n1'' 50, Click ''n1'' 60, Reply, Refresh, Unlock]"

text \<open>
  A click, its reply and its refresh; a second click before the unlock; the unlock;
  then, with nothing pending, a third click and its reply.
\<close>

definition late_click :: "event list" where
  "late_click = [Click ''n1'' 50, Reply, Refresh, Click ''n1'' 200, Unlock]"

definition like_again :: "event list" where
  "like_again = late_click @ [Click ''n1'' 900, Reply]"

definition typing0 :: typing_state where
  "typing0 = \<lparr>typingIndicators = Map.empty, typingTimeoutRef = Map.empty\<rparr>"

definition alice_types :: "string \<Rightarrow> bool \<Rightarrow> typing_payload" where
  "alice_types k flag = \<lparr>tp_noteId = k, tp_userId = ''alice'', tp_userName = ''Alice'', isTyping = flag\<rparr>"

text \<open>
  A mutation is rejected on a board when all it does is alert: no call, no broadcast,
  no state update, and the board is as before.
\<close>

definition rejected :: "board \<Rightarrow> effect list \<Rightarrow> bool" where
  "rejected b es = (list_all is_alert es \<and> apply_effects b es = b)"

text \<open>
  An update or a delete whose call fails, with nothing happening in between: the
  first part runs on the board, then the second part runs with the error.
\<close>

definition failed_updateNote :: "board \<Rightarrow> string \<Rightarrow> string \<Rightarrow> int \<Rightarrow> string \<Rightarrow> board" where
  "failed_updateNote b note_id str now msg =
     (let b1 = apply_effects b (updateNote_start b note_id str now (noteList b))
      in apply_effects b1 (updateNote_settle b note_id (Error msg) (noteList b1)))"

definition failed_updateNoteType :: "board \<Rightarrow> string \<Rightarrow> note_type \<Rightarrow> int \<Rightarrow> string \<Rightarrow> board" where
  "failed_updateNoteType b note_id ty now msg =
     (let b1 = apply_effects b (updateNoteType_start b note_id ty now (noteList b))
      in apply_effects b1 (updateNoteType_settle b note_id (Error msg) (noteList b1)))"

definition failed_deleteNote :: "board \<Rightarrow> string \<Rightarrow> string \<Rightarrow> board" where
  "failed_deleteNote b note_id msg =
     (let b1 = apply_effects b (deleteNote_start b note_id (noteList b))
      in apply_effects b1 (deleteNote_settle b note_id (Error msg) (noteList b1)))"

section \<open>Properties\<close>

subsection \<open>Helper facts\<close>

lemma nid_fetch: "nid (fetchNoteWithLikes usr likes note) = nid note"
  by (simp add: fetchNoteWithLikes_def split: option.splits)

lemma list_ex_nid: "list_ex (\<lambda>note. nid note = k) prev \<longleftrightarrow> k \<in> nid ` set prev"
  by (auto simp: list_ex_iff)

lemma ended_or_is_alert: "is_alert (ended_or msg a c)"
  by (simp add: ended_or_def)

lemma alerts_keep_board: "list_all is_alert es \<Longrightarrow> apply_effects b es = b"
proof (induction es)
  case Nil
  then show ?case by (simp add: apply_effects_def)
next
  case (Cons e es)
  then show ?case by (cases e) (simp_all add: apply_effects_def)
qed

lemma addNote_settle_Data:
  "addNote_settle (Data d) prev = [SetNotes (prev @ [d\<lparr>like_count := 0, user_liked := False\<rparr>])]"
  by (simp add: addNote_settle_def)

lemma find_Some_nid: "find (\<lambda>n. nid n = k) xs = Some x \<Longrightarrow> nid x = k \<and> x \<in> set xs"
  by (induction xs) (auto split: if_splits)

lemma on_note_nth:
  "i < length prev \<Longrightarrow> on_note k f prev ! i = (if nid (prev ! i) = k then f (prev ! i) else prev ! i)"
  by (simp add: on_note_def)

lemma on_note_set:
  "n \<in> set (on_note k f prev) \<Longrightarrow> nid n = k \<Longrightarrow> (\<And>m. nid (f m) = nid m) \<Longrightarrow> \<exists>m \<in> set prev. nid m = k \<and> n = f m"
  unfolding on_note_def by (induction prev) (auto split: if_splits)

subsection \<open>C10: the like count of a broadcast delta is clamped at zero\<close>

text \<open>
  Claim C10. When a \<^verbatim>\<open>like_change\<close> broadcast of a peer is applied (the sender is
  not the current user and the note is found in the notes of the closure), every note
  of the current list with the id of the payload gets the count
  \<open>max 0 (like_count \<plusminus> 1)\<close>, which is never negative; an unlike on a count of
  zero leaves zero.
\<close>

theorem like_change_never_negative:
  assumes "userId p \<noteq> user_id"
    and "find (\<lambda>note. nid note = noteId p) closure_notes = Some noteToUpdate"
    and "i < length prev"
    and "nid (prev ! i) = noteId p"
  shows "like_count (on_like_change user_id closure_notes p prev ! i)
           = max 0 (like_count (prev ! i) + (if liked p then 1 else - 1))
       \<and> 0 \<le> like_count (on_like_change user_id closure_notes p prev ! i)"
  using assms by (simp add: on_like_change_def like_delta_def)

theorem like_change_never_negative_witness:
  "like_count (on_like_change ''bob'' [note0, note1]
       \<lparr>noteId = ''n1'', userId = ''alice'', liked = False, timestamp = 5\<rparr> [note0, note1] ! 0) = 0"
  using like_change_never_negative [of "\<lparr>noteId = ''n1'', userId = ''alice'', liked = False, timestamp = 5\<rparr>"
      "''bob''" "[note0, note1]" note0 0 "[note0, note1]"]
  by (simp add: note0_def note1_def)

subsection \<open>C6: an INSERT notification never duplicates an id\<close>

lemma on_note_insert_distinct:
  "distinct (map nid prev) \<Longrightarrow> distinct (map nid (on_note_insert user_id likes newNote prev))"
  by (simp add: on_note_insert_def Let_def list_ex_nid nid_fetch)

lemma on_note_insert_noop:
  "created_by newNote = user_id \<or> nid newNote \<in> nid ` set prev
     \<Longrightarrow> on_note_insert user_id likes newNote prev = prev"
  by (auto simp: on_note_insert_def Let_def list_ex_nid)

lemma own_insert_once:
  assumes "created_by d = user_id" and "nid d \<notin> nid ` set prev"
  shows "length (filter (\<lambda>n. nid n = nid d)
           (on_note_insert user_id likes d
              (noteList (apply_effects b (addNote_settle (Data d) prev))))) = 1"
proof -
  have "filter (\<lambda>n. nid n = nid d) prev = []"
    using assms(2) by (auto simp: filter_empty_conv image_iff)
  then show ?thesis
    using assms(1) by (simp add: on_note_insert_noop addNote_settle_Data apply_effects_def)
qed

text \<open>
  Claim C6. Handling an INSERT notification keeps the ids of the local list distinct.
  A notification for a note created by the current user, or for an id that is already
  in the list, leaves the list as it is. When \<^verbatim>\<open>addNote\<close> has appended the row
  returned by the store and the notification for the same row arrives, exactly one
  note of the list has its id.
\<close>

theorem insert_notification_keeps_ids_unique:
  assumes "distinct (map nid prev)"
  shows "distinct (map nid (on_note_insert user_id likes newNote prev))
       \<and> (created_by newNote = user_id \<or> nid newNote \<in> nid ` set prev
            \<longrightarrow> on_note_insert user_id likes newNote prev = prev)
       \<and> (created_by newNote = user_id \<and> nid newNote \<notin> nid ` set prev
            \<longrightarrow> length (filter (\<lambda>n. nid n = nid newNote)
                  (on_note_insert user_id likes newNote
                     (noteList (apply_effects b (addNote_settle (Data newNote) prev))))) = 1)"
  using assms on_note_insert_distinct on_note_insert_noop own_insert_once by blast

theorem insert_notification_keeps_ids_unique_witness:
  "on_note_insert ''bob'' (Some []) note1 [note0, note1] = [note0, note1]
   \<and> on_note_insert ''alice'' (Some []) note1 [note0, note1] = [note0, note1]
   \<and> distinct (map nid (on_note_insert ''alice'' (Some []) note1 [note0]))
   \<and> length (filter (\<lambda>n. nid n = ''n2'')
        (on_note_insert ''bob'' (Some []) note1
           (noteList (apply_effects board0 (addNote_settle (Data note1) [note0]))))) = 1"
  using insert_notification_keeps_ids_unique [of "[note0, note1]" "''bob''" "Some []" note1 board0]
    insert_notification_keeps_ids_unique [of "[note0, note1]" "''alice''" "Some []" note1 board0]
    insert_notification_keeps_ids_unique [of "[note0]" "''alice''" "Some []" note1 board0]
    insert_notification_keeps_ids_unique [of "[note0]" "''bob''" "Some []" note1 board0]
  by (simp add: note0_def note1_def)

subsection \<open>C5: an ended board rejects every mutation locally\<close>

lemma ended_addNote:
  "meeting b = Some m \<Longrightarrow> status m = ended \<Longrightarrow> list_all is_alert (addNote_start b ty str)"
  by (simp add: addNote_start_def split: option.splits)

lemma ended_updateNote:
  "meeting b = Some m \<Longrightarrow> status m = ended \<Longrightarrow> list_all is_alert (updateNote_start b note_id str now prev)"
  by (simp add: updateNote_start_def)

lemma ended_updateNoteType:
  "meeting b = Some m \<Longrightarrow> status m = ended \<Longrightarrow> list_all is_alert (updateNoteType_start b note_id ty now prev)"
  by (simp add: updateNoteType_start_def)

lemma ended_deleteNote:
  "meeting b = Some m \<Longrightarrow> status m = ended \<Longrightarrow> list_all is_alert (deleteNote_start b note_id prev)"
  by (simp add: deleteNote_start_def)

lemma ended_toggleNoteLike:
  "meeting b = Some m \<Longrightarrow> status m = ended \<Longrightarrow> list_all is_alert (toggleNoteLike_start b note_id now prev pl)"
  by (simp add: toggleNoteLike_start_def)

text \<open>
  Claim C5. When the meeting of the closure has status \<open>ended\<close>, each of
  \<^verbatim>\<open>addNote\<close>, \<^verbatim>\<open>updateNote\<close>, \<^verbatim>\<open>updateNoteType\<close>, \<^verbatim>\<open>deleteNote\<close>
  and \<^verbatim>\<open>toggleNoteLike\<close> does nothing but alert: it issues no call to the store,
  sends no broadcast and leaves the board, hence the local list, unchanged.
\<close>

theorem ended_board_rejects_mutations:
  assumes "meeting b = Some m" and "status m = ended"
  shows "rejected b (addNote_start b ty str)
       \<and> rejected b (updateNote_start b note_id str now prev)
       \<and> rejected b (updateNoteType_start b note_id ty now prev)
       \<and> rejected b (deleteNote_start b note_id prev)
       \<and> rejected b (toggleNoteLike_start b note_id now prev prevLiking)"
  by (simp add: rejected_def alerts_keep_board ended_addNote [OF assms] ended_updateNote [OF assms]
      ended_updateNoteType [OF assms] ended_deleteNote [OF assms] ended_toggleNoteLike [OF assms])

theorem ended_board_rejects_mutations_witness:
  "updateNote_start board_ended ''n1'' ''edited'' 99 [note0, note1]
     = [Alert ''This meeting has ended. You can no longer edit notes.'']
   \<and> rejected board_ended (deleteNote_start board_ended ''n1'' [note0, note1])
   \<and> rejected board_ended (addNote_start board_ended glad ''edited'')"
  using ended_board_rejects_mutations [where b = board_ended
      and m = "meeting0\<lparr>status := ended, ended_at := Some 7200000\<rparr>" and ty = glad
      and str = "''edited''" and note_id = "''n1''" and now = 99 and prev = "[note0, note1]"
      and prevLiking = "{}"]
  by (simp add: board_ended_def board0_def updateNote_start_def)

subsection \<open>C2: \<^verbatim>\<open>addNote\<close> shows a note only after the store has replied\<close>

text \<open>
  Claim C2 as stated fails. On the active board \<open>board0\<close>, \<^verbatim>\<open>addNote\<close> issues
  the insert and, while the call is in flight, the local list holds no note with the
  new content: there is no placeholder.
\<close>

theorem addNote_no_placeholder_counterexample:
  "issued_calls (addNote_start board0 glad ''Retro went well'')
     = [NotesInsert ''m1'' ''Retro went well'' glad ''bob'']
   \<and> map content (noteList (apply_effects board0 (addNote_start board0 glad ''Retro went well'')))
       = [''Great sprint!'', ''Slow builds'']"
  by (simp add: addNote_start_def board0_def meeting0_def apply_effects_def note0_def note1_def)

text \<open>
  Claim C2, amended. On an active board with a user, \<^verbatim>\<open>addNote\<close> first issues the
  insert and leaves the local list unchanged; when the store replies with the row, the
  row is appended with \<^verbatim>\<open>like_count: 0\<close> and \<^verbatim>\<open>user_liked: false\<close>; when
  it replies with an error, the handler only alerts and the list stays as it was.
\<close>

theorem addNote_appends_after_reply:
  assumes "meeting b = Some m" and "status m = active" and "user b = Some u"
  shows "addNote_start b ty str = [Call (NotesInsert (mid m) str ty u)]
       \<and> noteList (apply_effects b (addNote_start b ty str)) = noteList b
       \<and> addNote_settle (Data d) prev = [SetNotes (prev @ [d\<lparr>like_count := 0, user_liked := False\<rparr>])]
       \<and> rejected (b\<lparr>noteList := prev\<rparr>) (addNote_settle (Error msg) prev)"
proof -
  have start: "addNote_start b ty str = [Call (NotesInsert (mid m) str ty u)]"
    using assms by (simp add: addNote_start_def)
  have same: "noteList (apply_effects b (addNote_start b ty str)) = noteList b"
    by (simp add: start apply_effects_def)
  have "list_all is_alert (addNote_settle (Error msg) prev)"
    by (simp add: addNote_settle_def ended_or_is_alert)
  then have rej: "rejected (b\<lparr>noteList := prev\<rparr>) (addNote_settle (Error msg) prev)"
    by (simp add: rejected_def alerts_keep_board)
  show ?thesis
    using start same rej by (simp add: addNote_settle_Data)
qed

theorem addNote_appends_after_reply_witness:
  "addNote_start board0 glad ''Retro went well'' = [Call (NotesInsert ''m1'' ''Retro went well'' glad ''bob'')]
   \<and> addNote_settle (Data note1) [note0] = [SetNotes [note0, note1\<lparr>like_count := 0, user_liked := False\<rparr>]]
   \<and> addNote_settle (Error ''offline'') [note0] = [Alert ''Failed to add note: offline'']"
  using addNote_appends_after_reply [where b = board0 and m = meeting0 and u = "''bob''" and ty = glad
      and str = "''Retro went well''" and d = note1 and prev = "[note0]" and msg = "''offline''"]
  by (simp add: board0_def meeting0_def addNote_settle_def ended_or_def)

subsection \<open>C8: a failed update or delete restores the captured note\<close>

lemma distinct_nid_unique:
  "distinct (map nid xs) \<Longrightarrow> x \<in> set xs \<Longrightarrow> y \<in> set xs \<Longrightarrow> nid x = nid y \<Longrightarrow> x = y"
  by (meson distinct_map inj_onD)

lemma replace_after_edit:
  assumes "\<And>n. nid (f n) = nid n"
  shows "replace_note k orig (map (\<lambda>n. if nid n = k then f n else n) xs)
           = map (\<lambda>n. if nid n = k then orig else n) xs"
  by (induction xs) (simp_all add: replace_note_def assms)

lemma replace_is_identity:
  assumes "distinct (map nid xs)" and "find (\<lambda>n. nid n = k) xs = Some orig"
  shows "map (\<lambda>n. if nid n = k then orig else n) xs = xs"
proof -
  have "\<And>n. n \<in> set xs \<Longrightarrow> nid n = k \<Longrightarrow> n = orig"
    using assms distinct_nid_unique find_Some_nid by metis
  then have "\<And>n. n \<in> set xs \<Longrightarrow> (if nid n = k then orig else n) = n"
    by simp
  then show ?thesis by (simp add: map_idI)
qed

lemma replace_note_value:
  "n \<in> set (replace_note k orig cur) \<Longrightarrow> nid n = k \<Longrightarrow> n = orig"
  unfolding replace_note_def by (induction cur) (auto split: if_splits)

lemma updateNote_settle_Error:
  "find (\<lambda>n. nid n = k) (noteList b) = Some orig \<Longrightarrow>
   \<exists>a. is_alert a \<and> updateNote_settle b k (Error msg) cur = [SetNotes (replace_note k orig cur), a]"
  by (simp add: updateNote_settle_def rollback_update_def ended_or_is_alert)

lemma updateNoteType_settle_Error:
  "find (\<lambda>n. nid n = k) (noteList b) = Some orig \<Longrightarrow>
   \<exists>a. is_alert a \<and> updateNoteType_settle b k (Error msg) cur = [SetNotes (replace_note k orig cur), a]"
  by (simp add: updateNoteType_settle_def rollback_update_def ended_or_is_alert)

lemma deleteNote_settle_Error:
  "find (\<lambda>n. nid n = k) (noteList b) = Some orig \<Longrightarrow>
   \<exists>a. is_alert a \<and> deleteNote_settle b k (Error msg) cur = [SetNotes (cur @ [orig]), a]"
  by (simp add: deleteNote_settle_def ended_or_is_alert)

lemma apply_set_then_alert:
  "is_alert a \<Longrightarrow> noteList (apply_effects b [SetNotes ns, a]) = ns"
  by (cases a) (simp_all add: apply_effects_def)

lemma failed_updateNote_restores:
  assumes "find (\<lambda>n. nid n = k) (noteList b) = Some orig"
    and "meeting b = Some m" and "status m = active" and "distinct (map nid (noteList b))"
  shows "noteList (failed_updateNote b k str now msg) = noteList b"
proof -
  let ?edited = "map (\<lambda>note. if nid note = k then note\<lparr>content := str, updated_at := now\<rparr> else note) (noteList b)"
  have start: "updateNote_start b k str now (noteList b)
                 = [SetNotes ?edited, Call (NotesUpdate (SetContent str) [EqId k, EqCreatedBy (user b)])]"
    using assms(2,3) by (simp add: updateNote_start_def)
  have b1: "noteList (apply_effects b (updateNote_start b k str now (noteList b))) = ?edited"
    by (simp add: start apply_effects_def)
  obtain a where a: "is_alert a"
    "updateNote_settle b k (Error msg) ?edited = [SetNotes (replace_note k orig ?edited), a]"
    using updateNote_settle_Error [OF assms(1)] by blast
  have "replace_note k orig ?edited = noteList b"
    using replace_after_edit [of "\<lambda>note. note\<lparr>content := str, updated_at := now\<rparr>" k orig "noteList b"]
      replace_is_identity [OF assms(4,1)] by simp
  then show ?thesis
    by (simp add: failed_updateNote_def Let_def b1 a apply_set_then_alert)
qed

lemma failed_updateNoteType_restores:
  assumes "find (\<lambda>n. nid n = k) (noteList b) = Some orig"
    and "meeting b = Some m" and "status m = active" and "distinct (map nid (noteList b))"
  shows "noteList (failed_updateNoteType b k ty now msg) = noteList b"
proof -
  let ?edited = "map (\<lambda>note. if nid note = k then note\<lparr>type := ty, updated_at := now\<rparr> else note) (noteList b)"
  have start: "updateNoteType_start b k ty now (noteList b)
                 = [SetNotes ?edited, Call (NotesUpdate (SetType ty) [EqId k])]"
    using assms(2,3) by (simp add: updateNoteType_start_def)
  have b1: "noteList (apply_effects b (updateNoteType_start b k ty now (noteList b))) = ?edited"
    by (simp add: start apply_effects_def)
  obtain a where a: "is_alert a"
    "updateNoteType_settle b k (Error msg) ?edited = [SetNotes (replace_note k orig ?edited), a]"
    using updateNoteType_settle_Error [OF assms(1)] by blast
  have "replace_note k orig ?edited = noteList b"
    using replace_after_edit [of "\<lambda>note. note\<lparr>type := ty, updated_at := now\<rparr>" k orig "noteList b"]
      replace_is_identity [OF assms(4,1)] by simp
  then show ?thesis
    by (simp add: failed_updateNoteType_def Let_def b1 a apply_set_then_alert)
qed

lemma failed_deleteNote_restores:
  assumes "find (\<lambda>n. nid n = k) (noteList b) = Some orig"
    and "meeting b = Some m" and "status m = active"
  shows "noteList (failed_deleteNote b k msg) = filter (\<lambda>n. nid n \<noteq> k) (noteList b) @ [orig]"
proof -
  let ?rest = "filter (\<lambda>note. nid note \<noteq> k) (noteList b)"
  have start: "deleteNote_start b k (noteList b)
                 = [SetNotes ?rest, Call (NotesDelete [EqId k, EqCreatedBy (user b)])]"
    using assms(2,3) by (simp add: deleteNote_start_def)
  have b1: "noteList (apply_effects b (deleteNote_start b k (noteList b))) = ?rest"
    by (simp add: start apply_effects_def)
  obtain a where a: "is_alert a"
    "deleteNote_settle b k (Error msg) ?rest = [SetNotes (?rest @ [orig]), a]"
    using deleteNote_settle_Error [OF assms(1)] by blast
  show ?thesis
    by (simp add: failed_deleteNote_def Let_def b1 a apply_set_then_alert)
qed

lemma filter_out_then_back:
  assumes "distinct (map nid xs)" and "find (\<lambda>n. nid n = k) xs = Some orig"
  shows "set (filter (\<lambda>n. nid n \<noteq> k) xs @ [orig]) = set xs"
proof -
  have "\<And>n. n \<in> set xs \<Longrightarrow> nid n = k \<Longrightarrow> n = orig"
    using assms distinct_nid_unique find_Some_nid by metis
  moreover have "orig \<in> set xs"
    using assms(2) find_Some_nid by metis
  ultimately show ?thesis by auto
qed

text \<open>
  Claim C8. Let \<open>original\<close> be the note captured from the closure. When the call of
  \<^verbatim>\<open>updateNote\<close>, \<^verbatim>\<open>updateNoteType\<close> or \<^verbatim>\<open>deleteNote\<close> fails, the
  handler first sets the notes (every note with the id becomes \<open>original\<close>; for a
  delete, \<open>original\<close> is appended) and only then alerts. With distinct ids and
  nothing in between, a failed update leaves the list exactly as before the optimistic
  edit; a failed delete leaves the same notes, the restored one at the end of the list.
\<close>

theorem failed_write_restores_prior_value:
  assumes "find (\<lambda>n. nid n = note_id) (noteList b) = Some original"
    and "meeting b = Some m" and "status m = active" and "distinct (map nid (noteList b))"
  shows "(\<exists>a. is_alert a \<and> updateNote_settle b note_id (Error msg) cur
                             = [SetNotes (replace_note note_id original cur), a])
       \<and> (\<exists>a. is_alert a \<and> updateNoteType_settle b note_id (Error msg) cur
                             = [SetNotes (replace_note note_id original cur), a])
       \<and> (\<exists>a. is_alert a \<and> deleteNote_settle b note_id (Error msg) cur
                             = [SetNotes (cur @ [original]), a])
       \<and> (\<forall>n \<in> set (replace_note note_id original cur). nid n = note_id \<longrightarrow> n = original)
       \<and> noteList (failed_updateNote b note_id str now msg) = noteList b
       \<and> noteList (failed_updateNoteType b note_id ty now msg) = noteList b
       \<and> noteList (failed_deleteNote b note_id msg)
             = filter (\<lambda>n. nid n \<noteq> note_id) (noteList b) @ [original]
       \<and> set (noteList (failed_deleteNote b note_id msg)) = set (noteList b)"
proof -
  have del: "noteList (failed_deleteNote b note_id msg)
               = filter (\<lambda>n. nid n \<noteq> note_id) (noteList b) @ [original]"
    by (rule failed_deleteNote_restores [OF assms(1,2,3)])
  have "set (noteList (failed_deleteNote b note_id msg)) = set (noteList b)"
    unfolding del by (rule filter_out_then_back [OF assms(4,1)])
  then show ?thesis
    using updateNote_settle_Error [OF assms(1)] updateNoteType_settle_Error [OF assms(1)]
      deleteNote_settle_Error [OF assms(1)] replace_note_value
      failed_updateNote_restores [OF assms] failed_updateNoteType_restores [OF assms] del
    by blast
qed

theorem failed_write_restores_prior_value_witness:
  "noteList (failed_updateNote board0 ''n1'' ''edited'' 99 ''offline'') = [note0, note1]
   \<and> noteList (failed_updateNoteType board0 ''n1'' sad 99 ''offline'') = [note0, note1]
   \<and> noteList (failed_deleteNote board0 ''n1'' ''offline'') = [note1, note0]
   \<and> updateNote_settle board0 ''n1'' (Error ''offline'') [note0\<lparr>content := ''edited''\<rparr>, note1]
        = [SetNotes [note0, note1], Alert ''Failed to update note: offline'']"
  using failed_write_restores_prior_value [where b = board0 and note_id = "''n1''" and original = note0
      and m = meeting0 and msg = "''offline''" and str = "''edited''" and now = 99 and ty = sad
      and cur = "[note0\<lparr>content := ''edited''\<rparr>, note1]"]
  by (simp add: board0_def meeting0_def note0_def note1_def updateNote_settle_def
      rollback_update_def replace_note_def ended_or_def)

subsection \<open>C9: a typing indicator lasts at most three seconds without refresh\<close>

lemma armed_run_timers: "armed_or_gone k due st \<Longrightarrow> armed_or_gone k due (run_timers t st)"
  by (auto simp: armed_or_gone_def run_timers_def timer_due_def)

lemma armed_on_typing:
  "tp_noteId q \<noteq> k \<Longrightarrow> armed_or_gone k due st \<Longrightarrow> armed_or_gone k due (on_typing user_id t q st)"
  by (auto simp: armed_or_gone_def on_typing_def)

lemma armed_receive_typing:
  "\<forall>e \<in> set evs. tp_noteId (snd e) \<noteq> k \<Longrightarrow> armed_or_gone k due st
     \<Longrightarrow> armed_or_gone k due (receive_typing user_id evs st)"
proof (induction evs arbitrary: st)
  case Nil
  then show ?case by simp
next
  case (Cons e evs)
  obtain t q where e: "e = (t, q)" by (cases e)
  have "armed_or_gone k due (on_typing user_id t q (run_timers t st))"
    using Cons.prems e by (simp add: armed_on_typing armed_run_timers)
  then show ?case
    using Cons e by simp
qed

lemma armed_fires: "armed_or_gone k due st \<Longrightarrow> due \<le> T \<Longrightarrow> typingIndicators (run_timers T st) k = None"
  by (auto simp: armed_or_gone_def run_timers_def timer_due_def)

text \<open>
  Claim C9. A typing broadcast of a peer received at time \<open>t\<close> displays the
  indicator of its note. If none of the typing broadcasts received afterwards is for
  the same note (no refresh and no stop), then once the event loop has run the timers
  at any time \<open>T \<ge> t + 3000\<close> ms the indicator of the note is gone from
  \<^verbatim>\<open>typingIndicators\<close>.
\<close>

theorem typing_indicator_expires:
  assumes "tp_userId p \<noteq> user_id" and "isTyping p"
    and "\<forall>e \<in> set evs. tp_noteId (snd e) \<noteq> tp_noteId p"
    and "t + 3000 \<le> T"
  shows "typingIndicators (on_typing user_id t p st) (tp_noteId p)
           = Some \<lparr>ti_userId = tp_userId p, ti_userName = tp_userName p, ti_timestamp = t\<rparr>
       \<and> typingIndicators
            (run_timers T (receive_typing user_id evs (on_typing user_id t p st))) (tp_noteId p) = None"
proof -
  have shown: "typingIndicators (on_typing user_id t p st) (tp_noteId p)
           = Some \<lparr>ti_userId = tp_userId p, ti_userName = tp_userName p, ti_timestamp = t\<rparr>"
    using assms(1,2) by (simp add: on_typing_def)
  have "armed_or_gone (tp_noteId p) (t + 3000) (on_typing user_id t p st)"
    using assms(1,2) by (simp add: on_typing_def armed_or_gone_def)
  then have "armed_or_gone (tp_noteId p) (t + 3000)
               (receive_typing user_id evs (on_typing user_id t p st))"
    using assms(3) by (rule armed_receive_typing [rotated])
  then show ?thesis
    using shown assms(4) by (simp add: armed_fires)
qed

theorem typing_indicator_expires_witness:
  "typingIndicators (on_typing ''bob'' 1000 (alice_types ''n1'' True) typing0) ''n1''
      = Some \<lparr>ti_userId = ''alice'', ti_userName = ''Alice'', ti_timestamp = 1000\<rparr>
   \<and> typingIndicators
        (run_timers 4000 (receive_typing ''bob'' [(2500, alice_types ''n2'' True)]
           (on_typing ''bob'' 1000 (alice_types ''n1'' True) typing0))) ''n1'' = None"
  using typing_indicator_expires [where p = "alice_types ''n1'' True" and user_id = "''bob''"
      and evs = "[(2500, alice_types ''n2'' True)]" and t = 1000 and T = 4000 and st = typing0]
  by (simp add: alice_types_def)


subsection \<open>C1: the expiry update is filtered by the meeting id only\<close>

text \<open>
  Claim C1 as stated fails. Two sessions of the owner hold the active copy
  \<open>meeting0\<close> of a meeting that is past its two hours. After the update of the
  first has ended the meeting in the store, the update of the second still affects one
  row and overwrites \<^verbatim>\<open>ended_at\<close>: the write does not depend on the status.
\<close>

theorem expiry_write_not_conditional_counterexample:
  "status (hd (expiry_race ''alice'' [(meeting0, 7200001, 7200002)] [meeting0])) = ended
   \<and> checkMeetingExpiration (Some meeting0) 7200004 7200005 = Some (expiry_update ''m1'' 7200005)
   \<and> rows_affected ''alice'' (expiry_update ''m1'' 7200005)
        (expiry_race ''alice'' [(meeting0, 7200001, 7200002)] [meeting0]) = 1
   \<and> ended_at (hd (expiry_race ''alice'' [(meeting0, 7200001, 7200002)] [meeting0])) = Some 7200002
   \<and> ended_at (hd (expiry_race ''alice'' racers [meeting0])) = Some 7200005"
  by (simp add: racers_def meeting0_def checkMeetingExpiration_def expiry_update_def
      store_meetings_update_def update_hits_def meetings_update_policy_def rows_affected_def)

lemma check_stale:
  "stale_caller i c \<Longrightarrow>
   checkMeetingExpiration (Some (fst c)) (fst (snd c)) (snd (snd c)) = Some (expiry_update i (snd (snd c)))"
  by (simp add: stale_caller_def checkMeetingExpiration_def expiry_update_def)

lemma expiry_update_hits:
  "mid row = i \<Longrightarrow> m_created_by row = uid \<Longrightarrow> update_hits uid (expiry_update i t) row"
  by (simp add: update_hits_def expiry_update_def meetings_update_policy_def)

lemma expiry_update_single:
  "mid row = i \<Longrightarrow> m_created_by row = uid \<Longrightarrow>
   store_meetings_update uid (expiry_update i t) [row]
     = [row\<lparr>status := ended, ended_at := Some t, ended_by := None\<rparr>]"
  by (simp add: store_meetings_update_def expiry_update_hits) (simp add: expiry_update_def)

lemma expiry_race_last:
  "cs \<noteq> [] \<Longrightarrow> \<forall>c \<in> set cs. stale_caller i c \<Longrightarrow> mid row = i \<Longrightarrow> m_created_by row = uid \<Longrightarrow>
   expiry_race uid cs [row]
     = [row\<lparr>status := ended, ended_at := Some (snd (snd (last cs))), ended_by := None\<rparr>]"
proof (induction cs arbitrary: row)
  case Nil
  then show ?case by simp
next
  case (Cons c cs)
  obtain local now now' where c: "c = (local, now, now')" by (cases c)
  let ?row' = "row\<lparr>status := ended, ended_at := Some now', ended_by := None\<rparr>"
  have chk: "checkMeetingExpiration (Some local) now now' = Some (expiry_update i now')"
    using check_stale [of i c] Cons.prems(2) c by simp
  have last_c: "snd (snd c) = now'" by (simp add: c)
  have step: "expiry_race uid (c # cs) [row] = expiry_race uid cs [?row']"
    using Cons.prems(3,4) by (simp add: c chk expiry_update_single)
  show ?case
  proof (cases "cs = []")
    case True
    then show ?thesis using step last_c by simp
  next
    case False
    have "expiry_race uid cs [?row']
            = [?row'\<lparr>status := ended, ended_at := Some (snd (snd (last cs))), ended_by := None\<rparr>]"
      using Cons.IH [of ?row'] False Cons.prems by simp
    then show ?thesis using False step by simp
  qed
qed

lemma dashboard_updates:
  "upd \<in> set (checkExpiredMeetings user_id now clock rows)
     \<Longrightarrow> \<exists>m \<in> set rows. upd = expiry_update (mid m) (clock m)"
  by (auto simp: checkExpiredMeetings_def expiry_update_def Let_def)

text \<open>
  Claim C1, amended. An expiry check on an active copy whose two hours have passed
  issues the update \<^verbatim>\<open>status = ended, ended_at = now, ended_by = null\<close> filtered
  by the meeting id alone, in the board as in the dashboard. Issued by the owner's
  session, it affects the row with that id whatever the row's status is. When several
  callers with such copies race, every update is applied in turn, and the row ends with
  status \<open>ended\<close>, \<^verbatim>\<open>ended_by = null\<close> and the \<^verbatim>\<open>ended_at\<close> of the last one.
\<close>

theorem expiry_update_filters_by_id_only:
  assumes "cs \<noteq> []" and "\<forall>c \<in> set cs. stale_caller (mid row) c" and "m_created_by row = uid"
  shows "(\<forall>upd \<in> set (checkExpiredMeetings user_id now clock rows).
            \<exists>m \<in> set rows. upd = expiry_update (mid m) (clock m))
       \<and> (\<forall>c \<in> set cs. checkMeetingExpiration (Some (fst c)) (fst (snd c)) (snd (snd c))
                          = Some (expiry_update (mid row) (snd (snd c))))
       \<and> where_filters (expiry_update (mid row) t) = [MEqId (mid row)]
       \<and> rows_affected uid (expiry_update (mid row) t) [row\<lparr>status := s, ended_at := ea, ended_by := eb\<rparr>] = 1
       \<and> expiry_race uid cs [row]
            = [row\<lparr>status := ended, ended_at := Some (snd (snd (last cs))), ended_by := None\<rparr>]"
proof -
  have "rows_affected uid (expiry_update (mid row) t) [row\<lparr>status := s, ended_at := ea, ended_by := eb\<rparr>] = 1"
    using assms(3) by (simp add: rows_affected_def expiry_update_hits)
  then show ?thesis
    using assms check_stale expiry_race_last [OF assms(1,2) refl assms(3)] dashboard_updates
    by (simp add: expiry_update_def)
qed

theorem expiry_update_filters_by_id_only_witness:
  "expiry_race ''alice'' racers [meeting0]
     = [meeting0\<lparr>status := ended, ended_at := Some 7200005, ended_by := None\<rparr>]
   \<and> rows_affected ''alice'' (expiry_update ''m1'' 7200005)
        [meeting0\<lparr>status := ended, ended_at := Some 7200002, ended_by := Some ''alice''\<rparr>] = 1"
  using expiry_update_filters_by_id_only [where cs = racers and row = meeting0 and uid = "''alice''"
      and t = 7200005 and s = ended and ea = "Some 7200002" and eb = "Some ''alice''"]
  by (simp add: racers_def meeting0_def stale_caller_def checkMeetingExpiration_def
      expiry_update_def store_meetings_update_def update_hits_def meetings_update_policy_def
      rows_affected_def)

subsection \<open>C4: content is changed by the author, the category by anyone\<close>

text \<open>
  Claim C4 as stated fails. On the active board \<open>board0\<close> the user \<open>bob\<close> moves
  the note \<open>n1\<close> of \<open>alice\<close>: the call is filtered by the note id only, and
  the store changes the type of the row.
\<close>

theorem category_change_by_non_author_counterexample:
  "issued_calls (updateNoteType_start board0 ''n1'' sad 99 [note0, note1])
     = [NotesUpdate (SetType sad) [EqId ''n1'']]
   \<and> user board0 = Some ''bob'' \<and> r_created_by row0 = ''alice''
   \<and> store_notes_apply ''bob'' [meeting0] (NotesUpdate (SetType sad) [EqId ''n1'']) [row0]
       = [row0\<lparr>r_type := sad\<rparr>]"
  by (simp add: updateNoteType_start_def board0_def meeting0_def row0_def note_update_hits_def
      policy_creators_update_def policy_anyone_moves_def meeting_is_active_def)

lemma content_update_hits:
  "note_update_hits uid meetings [EqId k, EqCreatedBy (Some uid)] row
     = (r_id row = k \<and> r_created_by row = uid \<and> meeting_is_active meetings (r_meeting_id row))"
  by (auto simp: note_update_hits_def policy_creators_update_def policy_anyone_moves_def)

lemma type_update_hits:
  "note_update_hits uid meetings [EqId k] row
     = (r_id row = k \<and> meeting_is_active meetings (r_meeting_id row))"
  by (auto simp: note_update_hits_def policy_creators_update_def policy_anyone_moves_def)

text \<open>
  Claim C4, amended. On an active board, \<^verbatim>\<open>updateNote\<close> issues a content update
  filtered by the note id and by \<^verbatim>\<open>created_by\<close> = the current user; the store
  applies it exactly to the rows with that id, created by that user, in an active
  meeting. \<^verbatim>\<open>updateNoteType\<close> issues a type update filtered by the note id alone;
  the store applies it, for any authenticated user, exactly to the rows with that id
  in an active meeting.
\<close>

theorem content_by_author_category_by_anyone:
  assumes "meeting b = Some m" and "status m = active" and "user b = Some uid"
  shows "issued_calls (updateNote_start b note_id str now prev)
           = [NotesUpdate (SetContent str) [EqId note_id, EqCreatedBy (Some uid)]]
       \<and> issued_calls (updateNoteType_start b note_id ty now prev)
           = [NotesUpdate (SetType ty) [EqId note_id]]
       \<and> store_notes_apply uid meetings
            (NotesUpdate (SetContent str) [EqId note_id, EqCreatedBy (Some uid)]) rows
           = map (\<lambda>row. if r_id row = note_id \<and> r_created_by row = uid
                            \<and> meeting_is_active meetings (r_meeting_id row)
                         then row\<lparr>r_content := str\<rparr> else row) rows
       \<and> store_notes_apply uid meetings (NotesUpdate (SetType ty) [EqId note_id]) rows
           = map (\<lambda>row. if r_id row = note_id \<and> meeting_is_active meetings (r_meeting_id row)
                         then row\<lparr>r_type := ty\<rparr> else row) rows"
  using assms
  by (simp add: updateNote_start_def updateNoteType_start_def content_update_hits type_update_hits)

theorem content_by_author_category_by_anyone_witness:
  "store_notes_apply ''bob'' [meeting0]
       (NotesUpdate (SetContent ''hijacked'') [EqId ''n1'', EqCreatedBy (Some ''bob'')]) [row0] = [row0]
   \<and> store_notes_apply ''alice'' [meeting0]
       (NotesUpdate (SetContent ''edited'') [EqId ''n1'', EqCreatedBy (Some ''alice'')]) [row0]
       = [row0\<lparr>r_content := ''edited''\<rparr>]
   \<and> store_notes_apply ''bob'' [meeting0\<lparr>status := ended\<rparr>]
       (NotesUpdate (SetType sad) [EqId ''n1'']) [row0] = [row0]"
  using content_by_author_category_by_anyone [where b = board0 and m = meeting0 and uid = "''bob''"
      and note_id = "''n1''" and str = "''hijacked''" and ty = sad and meetings = "[meeting0]"
      and rows = "[row0]" and now = 99 and prev = "[note0, note1]"]
    content_by_author_category_by_anyone [where b = "board0\<lparr>user := Some ''alice''\<rparr>"
      and m = meeting0 and uid = "''alice''"
      and note_id = "''n1''" and str = "''edited''" and ty = sad and meetings = "[meeting0]"
      and rows = "[row0]" and now = 99 and prev = "[note0, note1]"]
    content_by_author_category_by_anyone [where b = board0 and m = meeting0 and uid = "''bob''"
      and note_id = "''n1''" and str = "''hijacked''" and ty = sad
      and meetings = "[meeting0\<lparr>status := ended\<rparr>]"
      and rows = "[row0]" and now = 99 and prev = "[note0, note1]"]
  by (simp add: board0_def meeting0_def row0_def meeting_is_active_def)

subsection \<open>Runs of the client against the store\<close>

lemmas run_simps = run_def world0_def board0_def meeting0_def note0_def note1_def
  toggleNoteLike_start_def toggleNoteLike_settle_def toggleNoteLike_refresh_def
  toggleNoteLike_unlock_def apply_effects_def on_note_def set_like_def flip_like_def
  revert_like_def fetchNoteWithLikes_def Let_def settled_def calls_in_flight_def liked_in_def
  ended_or_def rls_using_message_def rls_check_message_def

subsection \<open>C3: a click that overlaps a call in flight never reaches the store\<close>

text \<open>
  While a note is in \<^verbatim>\<open>likingNotes\<close>, a click on its like button issues no
  call: nothing goes in flight and the table is not touched. The source announces
  the branch as queuing the toggle, but all it does is flip the local note.
\<close>

lemma gated_click_issues_no_call:
  "note_id \<in> likingNotes b \<Longrightarrow> issued_calls (toggleNoteLike_start b note_id now prev prevLiking) = []"
  by (simp add: toggleNoteLike_start_def split: option.splits)

lemma gated_click_changes_no_table:
  assumes "note_id \<in> likingNotes (client w)"
  shows "in_flight (step w (Click note_id now)) = in_flight w
       \<and> likes_table (step w (Click note_id now)) = likes_table w"
  using gated_click_issues_no_call [OF assms] by (simp add: Let_def)

text \<open>
  Claim C3, evaluated on the code. The note \<open>n1\<close> is not liked by \<open>bob\<close>. He
  clicks twice, the second click while the upsert of the first is in flight: one call
  is in flight for the two attempts, and the local flag is back to not liked. When the
  reply, the refresh and the unlock have run and nothing is pending, the store holds
  his like and the note is shown as liked: liked after an even number of attempts.
  When instead the second click falls between the refresh and the unlock of the first,
  nothing is pending at the end, the store holds his like and the note is shown as not
  liked.
\<close>

theorem double_click_ends_liked:
  "liked_in ''n1'' board0 = Some False
   \<and> calls_in_flight (run [Click ''n1'' 50, Click ''n1'' 60] world0) = [LikesUpsert ''n1'' ''bob'']
   \<and> liked_in ''n1'' (client (run [Click ''n1'' 50, Click ''n1'' 60] world0)) = Some False
   \<and> settled (run double_click world0)
   \<and> likes_table (run double_click world0) = [(''n1'', ''bob'')]
   \<and> liked_in ''n1'' (client (run double_click world0)) = Some True
   \<and> settled (run late_click world0)
   \<and> likes_table (run late_click world0) = [(''n1'', ''bob'')]
   \<and> liked_in ''n1'' (client (run late_click world0)) = Some False"
  by (simp add: run_simps double_click_def late_click_def)

subsection \<open>C7: liking a note whose tuple exists is answered with an error\<close>

text \<open>
  The branch that the source writes for a duplicate: on an error whose message
  contains \<^verbatim>\<open>duplicate key\<close>, a like shows no alert and does not revert; its
  only effect sets \<^verbatim>\<open>user_liked: true\<close> and keeps the optimistic count.
\<close>

lemma duplicate_key_branch:
  assumes "find (\<lambda>n. nid n = note_id) (noteList b) = Some original"
    and "\<not> user_liked original"
    and "str_includes msg ''duplicate key''"
  shows "toggleNoteLike_settle b note_id (Error msg) prev
           = [SetNotes (on_note note_id (\<lambda>n. n\<lparr>user_liked := True, like_count := max 0 (like_count n)\<rparr>) prev)]
       \<and> \<not> list_ex is_alert (toggleNoteLike_settle b note_id (Error msg) prev)
       \<and> (\<forall>n \<in> set (noteList (apply_effects c (toggleNoteLike_settle b note_id (Error msg) prev))).
             nid n = note_id \<longrightarrow> user_liked n)
       \<and> (\<forall>i < length prev. nid (prev ! i) = note_id \<and> 0 \<le> like_count (prev ! i) \<longrightarrow>
             noteList (apply_effects c (toggleNoteLike_settle b note_id (Error msg) prev)) ! i
               = (prev ! i)\<lparr>user_liked := True\<rparr>)"
proof -
  let ?ns = "on_note note_id (\<lambda>n. n\<lparr>user_liked := True, like_count := max 0 (like_count n)\<rparr>) prev"
  have eq: "toggleNoteLike_settle b note_id (Error msg) prev = [SetNotes ?ns]"
    using assms by (simp add: toggleNoteLike_settle_def)
  have nl: "noteList (apply_effects c [SetNotes ?ns]) = ?ns"
    by (simp add: apply_effects_def)
  have liked: "\<forall>n \<in> set ?ns. nid n = note_id \<longrightarrow> user_liked n"
  proof (intro ballI impI)
    fix n assume "n \<in> set ?ns" and "nid n = note_id"
    then obtain m where "n = m\<lparr>user_liked := True, like_count := max 0 (like_count m)\<rparr>"
      using on_note_set [of n note_id
          "\<lambda>n. n\<lparr>user_liked := True, like_count := max 0 (like_count n)\<rparr>" prev] by auto
    then show "user_liked n" by simp
  qed
  have kept: "\<forall>i < length prev. nid (prev ! i) = note_id \<and> 0 \<le> like_count (prev ! i) \<longrightarrow>
                ?ns ! i = (prev ! i)\<lparr>user_liked := True\<rparr>"
    by (simp add: on_note_nth)
  show ?thesis
    unfolding eq nl using liked kept by simp
qed

text \<open>
  The store never takes that branch. No answer of the store to the upsert contains
  \<^verbatim>\<open>duplicate key\<close>: when the tuple exists, the answer is the row level
  security error of the update path. On such an error a like reverts the note and
  alerts.
\<close>

lemma no_duplicate_key_from_store:
  "fst (likes_store uid act (LikesUpsert n u) rows) = Error msg \<Longrightarrow> \<not> str_includes msg ''duplicate key''"
  by (auto simp: rls_using_message_def rls_check_message_def split: if_splits)

lemma existing_tuple_is_refused:
  "(n, u) \<in> set rows \<Longrightarrow> likes_store u True (LikesUpsert n u) rows = (Error rls_using_message, rows)"
  by simp

lemma like_error_reverts:
  assumes "find (\<lambda>n. nid n = note_id) (noteList b) = Some original"
    and "\<not> user_liked original"
    and "\<not> str_includes msg ''duplicate key''"
  shows "\<exists>a. is_alert a \<and> toggleNoteLike_settle b note_id (Error msg) prev
                  = [SetNotes (on_note note_id (revert_like False) prev), a]"
  using assms by (simp add: toggleNoteLike_settle_def ended_or_is_alert)

text \<open>
  Claim C7, evaluated on the code. After a click, its reply and refresh, a second click
  before the unlock, and the unlock, nothing is pending: the store holds the tuple
  \<open>(n1, bob)\<close> and the note is shown as not liked. The next click is a like
  attempt: it issues the upsert and shows the note as liked. The store refuses the
  upsert of the existing tuple; the invocation reverts the note to not liked and
  alerts \<^verbatim>\<open>Failed to like note. Please try again.\<close>
\<close>

theorem like_of_existing_tuple_alerts:
  "settled (run late_click world0)
   \<and> likes_table (run late_click world0) = [(''n1'', ''bob'')]
   \<and> liked_in ''n1'' (client (run late_click world0)) = Some False
   \<and> calls_in_flight (run (late_click @ [Click ''n1'' 900]) world0) = [LikesUpsert ''n1'' ''bob'']
   \<and> liked_in ''n1'' (client (run (late_click @ [Click ''n1'' 900]) world0)) = Some True
   \<and> likes_store ''bob'' True (LikesUpsert ''n1'' ''bob'') [(''n1'', ''bob'')]
       = (Error rls_using_message, [(''n1'', ''bob'')])
   \<and> toggleNoteLike_settle board0 ''n1'' (Error rls_using_message)
        [note0\<lparr>user_liked := True, like_count := 1\<rparr>, note1]
       = [SetNotes [note0, note1], Alert ''Failed to like note. Please try again.'']
   \<and> alerts (run like_again world0) = [''Failed to like note. Please try again.'']
   \<and> liked_in ''n1'' (client (run like_again world0)) = Some False
   \<and> likes_table (run like_again world0) = [(''n1'', ''bob'')]"
  by (simp add: run_simps late_click_def like_again_def)

end
